theory Spec2Isabelle
  imports Main
begin

section \<open>Python strings\<close>

text \<open>
  A Python \<open>str\<close> is a sequence of Unicode code points, so it is modelled as a list of
  natural numbers. ASCII literals are written \<open>str ''...''\<close>; the few non-ASCII literals of
  \<open>web_clipper.py\<close> are given by their code points.
\<close>

type_synonym pystr = "nat list"

definition str :: "string \<Rightarrow> pystr" where
  "str = map of_char"

text \<open>The exceptions the program raises or catches; the argument is \<open>str(e)\<close>.
  \<open>Exception\<close> stands for every class that the program does not tell apart
  (errors of the GitHub, AI, Notion and Telegram clients).\<close>

datatype exn =
    IndexError pystr
  | KeyError pystr
  | AttributeError pystr
  | TypeError pystr
  | ValueError pystr
  | RuntimeError pystr
  | RequestException pystr
  | Exception pystr

fun message :: "exn \<Rightarrow> pystr" where
  "message (IndexError m) = m"
| "message (KeyError m) = m"
| "message (AttributeError m) = m"
| "message (TypeError m) = m"
| "message (ValueError m) = m"
| "message (RuntimeError m) = m"
| "message (RequestException m) = m"
| "message (Exception m) = m"

text \<open>\<open>xs[i]\<close> for a non-negative index: out of range raises
  \<open>IndexError\<close>.\<close>

definition subscript :: "'a list \<Rightarrow> nat \<Rightarrow> exn + 'a" where
  "subscript xs i =
     (if i < length xs then Inr (xs ! i) else Inl (IndexError (str ''list index out of range'')))"

text \<open>\<open>s.split(sep)\<close> for a separator of one character (every separator in the source is
  one character long).\<close>

fun split :: "'a \<Rightarrow> 'a list \<Rightarrow> 'a list list" where
  "split sep [] = [[]]"
| "split sep (c # cs) =
     (if c = sep then [] # split sep cs
      else (case split sep cs of p # ps \<Rightarrow> (c # p) # ps | [] \<Rightarrow> [[c]]))"

text \<open>\<open>s.split(sep, 1)\<close>: cut at the first separator only.\<close>

definition split1 :: "'a \<Rightarrow> 'a list \<Rightarrow> 'a list list" where
  "split1 sep s =
     (if sep \<in> set s
      then [takeWhile (\<lambda>c. c \<noteq> sep) s, tl (dropWhile (\<lambda>c. c \<noteq> sep) s)]
      else [s])"

text \<open>\<open>s.rsplit(sep, 1)\<close>: cut at the last separator only.\<close>

definition rsplit1 :: "'a \<Rightarrow> 'a list \<Rightarrow> 'a list list" where
  "rsplit1 sep s =
     (if sep \<in> set s
      then [rev (tl (dropWhile (\<lambda>c. c \<noteq> sep) (rev s))), rev (takeWhile (\<lambda>c. c \<noteq> sep) (rev s))]
      else [s])"

text \<open>\<open>s.replace(old, new)\<close>: every non-overlapping occurrence, from the
  left.\<close>

function replace :: "'a list \<Rightarrow> 'a list \<Rightarrow> 'a list \<Rightarrow> 'a list" where
  "replace old new [] = (if old = [] then new else [])"
| "replace old new (c # cs) =
     (if old = [] then new @ c # replace old new cs
      else if take (length old) (c # cs) = old
      then new @ replace old new (drop (length old) (c # cs))
      else c # replace old new cs)"
  by pat_completeness auto
termination
  by (relation "measure (\<lambda>(old, new, s). length s)") auto

text \<open>\<open>s.startswith(p)\<close>.\<close>

definition startswith :: "'a list \<Rightarrow> 'a list \<Rightarrow> bool" where
  "startswith s p = (take (length p) s = p)"

text \<open>The code points for which \<open>str.isspace\<close> holds; \<open>s.strip()\<close> removes them at both
  ends.\<close>

definition is_space :: "nat \<Rightarrow> bool" where
  "is_space c =
     ((9 \<le> c \<and> c \<le> 13) \<or> (28 \<le> c \<and> c \<le> 32) \<or> c = 133 \<or> c = 160 \<or> c = 5760 \<or>
      (8192 \<le> c \<and> c \<le> 8202) \<or> c = 8232 \<or> c = 8233 \<or> c = 8239 \<or> c = 8287 \<or> c = 12288)"

definition strip :: "pystr \<Rightarrow> pystr" where
  "strip s = rev (dropWhile is_space (rev (dropWhile is_space s)))"

text \<open>\<open>s.splitlines()\<close>: the line boundaries of Python, \<open>\r\n\<close> counting as one; no empty
  last line.\<close>

definition is_linebreak :: "nat \<Rightarrow> bool" where
  "is_linebreak c =
     ((10 \<le> c \<and> c \<le> 13) \<or> (28 \<le> c \<and> c \<le> 30) \<or> c = 133 \<or> c = 8232 \<or> c = 8233)"

fun splitlines_from :: "pystr \<Rightarrow> bool \<Rightarrow> pystr \<Rightarrow> pystr list" where
  "splitlines_from cur after_cr [] = (if cur = [] then [] else [rev cur])"
| "splitlines_from cur after_cr (c # cs) =
     (if after_cr \<and> c = 10 then splitlines_from cur False cs
      else if is_linebreak c then rev cur # splitlines_from [] (c = 13) cs
      else splitlines_from (c # cur) False cs)"

definition splitlines :: "pystr \<Rightarrow> pystr list" where
  "splitlines s = splitlines_from [] False s"

text \<open>\<open>os.path.basename(p)\<close>: what follows the last \<open>/\<close>.\<close>

definition basename :: "pystr \<Rightarrow> pystr" where
  "basename p = rev (takeWhile (\<lambda>c. c \<noteq> of_char (CHR ''/'')) (rev p))"

section \<open>parse_filename\<close>

text \<open>
  The body of the \<open>try\<close> of \<open>parse_filename\<close>: drop what follows the last \<open>.\<close>, drop the
  prefix up to the first \<open>_\<close> when there is one, turn every \<open>$\<close> into \<open>/\<close>. Both
  subscripts are kept as the operations that could raise.
\<close>

definition parse_filename_try :: "pystr \<Rightarrow> exn + (string \<rightharpoonup> pystr)" where
  "parse_filename_try filename =
     (case subscript (rsplit1 (of_char (CHR ''.'')) filename) 0 of
        Inl e \<Rightarrow> Inl e
      | Inr name_without_ext \<Rightarrow>
          (case (if of_char (CHR ''_'') \<in> set name_without_ext
                 then subscript (split1 (of_char (CHR ''_'')) name_without_ext) 1
                 else Inr name_without_ext) of
             Inl e \<Rightarrow> Inl e
           | Inr name \<Rightarrow> Inr [''original_url'' \<mapsto> replace (str ''$'') (str ''/'') name]))"

text \<open>The \<open>except Exception\<close> branch of \<open>parse_filename\<close>.\<close>

definition parse_filename_except :: "exn \<Rightarrow> (string \<rightharpoonup> pystr)" where
  "parse_filename_except e = [''original_url'' \<mapsto> []]"

definition parse_filename :: "pystr \<Rightarrow> (string \<rightharpoonup> pystr)" where
  "parse_filename filename =
     (case parse_filename_try filename of
        Inr d \<Rightarrow> d
      | Inl e \<Rightarrow> parse_filename_except e)"

section \<open>The outside world\<close>

text \<open>
  Every call that leaves the process (reading the uploaded file, the GitHub client,
  \<open>requests.get\<close>, the AI client, the Notion client, the Telegram bot) is answered by a
  script: the answer to the k-th call of each kind. A run of the program against any
  behaviour of the outside is a run against some script. Logging is left out; it has no
  effect on what the functions return.
\<close>

datatype http = Response nat pystr | Raises exn

text \<open>What the program asks of a parsed HTML page: \<open>soup.title\<close> and its
  \<open>.string\<close>
  (either may be \<open>None\<close>), the stripped text of \<open>soup.h1\<close>, the stripped text of
  \<open>soup.find(tag)\<close>, and the text \<open>html2text\<close> makes of \<open>soup.prettify()\<close>. The parser
  and the converter are library code: \<open>parse_html\<close> of the outside world gives what they
  yield for a text, or the exception that one of them raises.\<close>

record soup =
  title_string :: "pystr option option"
  h1_text :: "pystr option"
  find_text :: "pystr \<Rightarrow> pystr option"
  markdown :: pystr

datatype provider = Azure | Deepseek | Gemini | OpenAI

text \<open>The keys of \<open>CONFIG\<close> that decide what the pipeline does; a key read with
  \<open>config.get(key, default)\<close> is optional. A key read with \<open>config[key]\<close> is present: the
  configuration is validated at startup, and so are the keys that are only passed on to
  the clients (\<open>notion_database_id\<close>, \<open>telegram_chat_id\<close>). Retry counts are natural
  numbers.\<close>

record config =
  github_repo :: pystr
  github_pages_domain :: pystr
  github_pages_max_retries :: "nat option"
  ai_provider :: provider
  openai_max_retries :: "nat option"
  notify_on_ai_error :: "bool option"
  skip_ai_on_error :: "bool option"
  default_summary :: "pystr option"
  default_tags :: "pystr list option"
  skip_notion_on_error :: "bool option"

text \<open>\<open>iso8601\<close> is \<open>time.strftime\<close> of \<open>time.gmtime\<close>, which raises for a time out of
  range. \<open>response_text e\<close> is what the handler of \<open>save_to_notion\<close> finds on an exception:
  \<open>None\<close> when \<open>hasattr(e, 'response')\<close> is false, else the text \<open>e.response.text\<close> or the
  exception that reading it raises.\<close>

record env =
  read_file :: "pystr \<Rightarrow> exn + pystr"
  create_file :: "nat \<Rightarrow> exn option"
  deploy_get :: "nat \<Rightarrow> http"
  jina_get :: "nat \<Rightarrow> http"
  page_get :: "nat \<Rightarrow> http"
  parse_html :: "pystr \<Rightarrow> exn + soup"
  completion :: "nat \<Rightarrow> exn + pystr"
  pages_create :: "nat \<Rightarrow> exn + pystr"
  send_message :: "nat \<Rightarrow> exn option"
  loop_running :: bool
  time_now :: int
  iso8601 :: "int \<Rightarrow> exn + pystr"
  response_text :: "exn \<Rightarrow> (exn + pystr) option"

text \<open>The payload of \<open>notion_client.pages.create\<close>.\<close>

record properties =
  Title :: pystr
  OriginalURL :: "pystr option"
  SnapshotURL :: pystr
  Summary :: pystr
  Tags :: "pystr list"
  Created :: pystr

text \<open>What the run has done so far: how many calls of each kind, the payloads handed to
  Notion, the messages handed to \<open>send_telegram_notification\<close> (awaited, or scheduled with
  \<open>asyncio.create_task\<close>), and every \<open>time.sleep\<close>.\<close>

record world =
  uploads :: nat
  polls :: nat
  renders :: nat
  fetches :: nat
  completions :: nat
  pages :: "properties list"
  sent :: "pystr list"
  tasks :: "pystr list"
  sleeps :: "nat list"

definition start :: world where
  "start = \<lparr>uploads = 0, polls = 0, renders = 0, fetches = 0, completions = 0,
             pages = [], sent = [], tasks = [], sleeps = []\<rparr>"

definition sleep :: "nat \<Rightarrow> world \<Rightarrow> world" where
  "sleep seconds s = s\<lparr>sleeps := sleeps s @ [seconds]\<rparr>"

section \<open>upload_to_github\<close>

fun is_request_exception :: "exn \<Rightarrow> bool" where
  "is_request_exception (RequestException m) = True"
| "is_request_exception e = False"

text \<open>The loop \<open>for deploy_attempt in range(max_deploy_retries)\<close>. \<open>Inr True\<close>: a poll saw
  status 200 and the function returns from inside the loop; \<open>Inr False\<close>: the loop ran
  out; \<open>Inl e\<close>: an exception other than \<open>requests.RequestException\<close> left the loop.\<close>

fun deploy_loop :: "env \<Rightarrow> nat list \<Rightarrow> world \<Rightarrow> (exn + bool) \<times> world" where
  "deploy_loop w [] s = (Inr False, s)"
| "deploy_loop w (deploy_attempt # rest) s =
     (case deploy_get w (polls s) of
        Response code text \<Rightarrow>
          if code = 200 then (Inr True, s\<lparr>polls := polls s + 1\<rparr>)
          else deploy_loop w rest (sleep 5 (s\<lparr>polls := polls s + 1\<rparr>))
      | Raises e \<Rightarrow>
          if is_request_exception e
          then deploy_loop w rest (sleep 5 (s\<lparr>polls := polls s + 1\<rparr>))
          else (Inl e, s\<lparr>polls := polls s + 1\<rparr>))"

definition max_deploy_retries :: "config \<Rightarrow> nat" where
  "max_deploy_retries cfg = (case github_pages_max_retries cfg of None \<Rightarrow> 60 | Some n \<Rightarrow> n)"

definition github_url_of :: "config \<Rightarrow> pystr \<Rightarrow> exn + pystr" where
  "github_url_of cfg filename =
     (case subscript (split (of_char (CHR ''/'')) (github_repo cfg)) 1 of
        Inl e \<Rightarrow> Inl e
      | Inr repo_name \<Rightarrow>
          Inr (str ''https://'' @ github_pages_domain cfg @ str ''/'' @ repo_name
               @ str ''/clips/'' @ filename))"

text \<open>The body of the \<open>try\<close> of one upload attempt: \<open>get_repo\<close> and \<open>create_file\<close> (one
  scripted call), the public URL, the deploy poll, and the return of the pair in both
  outcomes of the poll.\<close>

definition upload_try ::
  "config \<Rightarrow> env \<Rightarrow> pystr \<Rightarrow> world \<Rightarrow> (exn + pystr \<times> pystr) \<times> world" where
  "upload_try cfg w filename s =
     (case create_file w (uploads s) of
        Some e \<Rightarrow> (Inl e, s\<lparr>uploads := uploads s + 1\<rparr>)
      | None \<Rightarrow>
          (case github_url_of cfg filename of
             Inl e \<Rightarrow> (Inl e, s\<lparr>uploads := uploads s + 1\<rparr>)
           | Inr github_url \<Rightarrow>
               (case deploy_loop w [0..<max_deploy_retries cfg] (s\<lparr>uploads := uploads s + 1\<rparr>) of
                  (Inl e, s') \<Rightarrow> (Inl e, s')
                | (Inr seen, s') \<Rightarrow> (Inr (filename, github_url), s'))))"

text \<open>The prefix of the message of the \<open>RuntimeError\<close> raised after the
  last attempt (line 298 of the source), as code points.\<close>

definition upload_failed :: pystr where
  "upload_failed = str ''GitHub '' @ [0x4e0a, 0x4f20, 0x5931, 0x8d25] @ str '': ''"

text \<open>The loop \<open>for attempt in range(max_retries)\<close> with its handler; \<open>retry_delay\<close> is the
  variable doubled after each sleep. The test \<open>attempt < max_retries - 1\<close> is written
  without the subtraction. A loop that ran out would leave the function without a
  \<open>return\<close>: the result \<open>None\<close> of Python is \<open>Inr None\<close>.\<close>

fun upload_loop ::
  "config \<Rightarrow> env \<Rightarrow> pystr \<Rightarrow> nat \<Rightarrow> nat list \<Rightarrow> nat \<Rightarrow> world
     \<Rightarrow> (exn + (pystr \<times> pystr) option) \<times> world" where
  "upload_loop cfg w filename max_retries [] retry_delay s = (Inr None, s)"
| "upload_loop cfg w filename max_retries (attempt # rest) retry_delay s =
     (case upload_try cfg w filename s of
        (Inr r, s') \<Rightarrow> (Inr (Some r), s')
      | (Inl e, s') \<Rightarrow>
          if attempt + 1 < max_retries
          then upload_loop cfg w filename max_retries rest (retry_delay * 2) (sleep retry_delay s')
          else (Inl (RuntimeError (upload_failed @ message e)), s'))"

definition upload_to_github ::
  "config \<Rightarrow> env \<Rightarrow> pystr \<Rightarrow> world \<Rightarrow> (exn + (pystr \<times> pystr) option) \<times> world" where
  "upload_to_github cfg w html_path s =
     (case read_file w html_path of
        Inl e \<Rightarrow> (Inl e, s)
      | Inr content \<Rightarrow> upload_loop cfg w (basename html_path) 5 [0..<5] 3 s)"

section \<open>Content extraction\<close>

text \<open>What \<open>url2md\<close> may hand to its caller: a string,
  \<open>None\<close>, or a pair of strings.\<close>

datatype pyval = PyNone | PyStr pystr | PyTuple pystr pystr

text \<open>The title chosen by \<open>get_page_content_by_bs\<close>; \<open>None\<close> is Python's \<open>None\<close>, and
  \<open>not title\<close> holds for \<open>None\<close> and for the empty string.\<close>

definition falsy :: "pystr option \<Rightarrow> bool" where
  "falsy t = (t = None \<or> t = Some [])"

text \<open>The loop \<open>for tag in ['h2', 'h3', 'h4', 'h5', 'h6']\<close>, which stops at the first tag
  that \<open>soup.find\<close> finds.\<close>

fun heading_loop :: "soup \<Rightarrow> pystr list \<Rightarrow> pystr option \<Rightarrow> pystr option" where
  "heading_loop sp [] t = t"
| "heading_loop sp (tag # rest) t =
     (case find_text sp tag of
        Some text \<Rightarrow> Some text
      | None \<Rightarrow> heading_loop sp rest t)"

definition bs_title :: "soup \<Rightarrow> pystr option" where
  "bs_title sp =
     (let t0 = None;
          t1 = (case title_string sp of Some s \<Rightarrow> s | None \<Rightarrow> t0);
          t2 = (if falsy t1 \<and> h1_text sp \<noteq> None then h1_text sp else t1)
      in if falsy t2
         then heading_loop sp [str ''h2'', str ''h3'', str ''h4'', str ''h5'', str ''h6''] t2
         else t2)"

text \<open>\<open>{title}\<close> inside an f-string: \<open>None\<close> is formatted as
  the text \<open>None\<close>.\<close>

definition format_opt :: "pystr option \<Rightarrow> pystr" where
  "format_opt t = (case t of None \<Rightarrow> str ''None'' | Some s \<Rightarrow> s)"

text \<open>The string returned on status 200: \<open>f"Title: {title} \n\n
  {content}"\<close>.\<close>

definition bs_page :: "soup \<Rightarrow> pystr" where
  "bs_page sp = str ''Title: '' @ format_opt (bs_title sp) @ [32, 10, 10, 32] @ markdown sp"

text \<open>The loop of \<open>get_page_content_by_bs\<close> and the \<open>return\<close> that follows it. An
  exception of the request, of the parser or of the converter is caught by the handler,
  which sleeps 5 seconds and goes to the next attempt.\<close>

fun bs_loop :: "env \<Rightarrow> pystr \<Rightarrow> nat list \<Rightarrow> world \<Rightarrow> pyval \<times> world" where
  "bs_loop w url [] s = (PyTuple (basename url) [], s)"
| "bs_loop w url (attempt # rest) s =
     (case page_get w (fetches s) of
        Response code text \<Rightarrow>
          if code = 200
          then (case parse_html w text of
                  Inr sp \<Rightarrow> (PyStr (bs_page sp), s\<lparr>fetches := fetches s + 1\<rparr>)
                | Inl e \<Rightarrow> bs_loop w url rest (sleep 5 (s\<lparr>fetches := fetches s + 1\<rparr>)))
          else bs_loop w url rest (sleep 5 (s\<lparr>fetches := fetches s + 1\<rparr>))
      | Raises e \<Rightarrow> bs_loop w url rest (sleep 5 (s\<lparr>fetches := fetches s + 1\<rparr>)))"

definition get_page_content_by_bs :: "env \<Rightarrow> pystr \<Rightarrow> nat \<Rightarrow> world \<Rightarrow> pyval \<times> world" where
  "get_page_content_by_bs w url max_retries s = bs_loop w url [0..<max_retries] s"

text \<open>The body of the outer \<open>try\<close> of \<open>url2md\<close>: the loop over the renderer. A response
  other than 200 goes to the next attempt at once; an exception of the request is caught
  by the inner handler, which sleeps 10 seconds. When the loop runs out the function
  reaches its end without a \<open>return\<close>, so the result is \<open>None\<close>.\<close>

fun jina_loop :: "env \<Rightarrow> pystr \<Rightarrow> nat list \<Rightarrow> world \<Rightarrow> (exn + pyval) \<times> world" where
  "jina_loop w url [] s = (Inr PyNone, s)"
| "jina_loop w url (attempt # rest) s =
     (case jina_get w (renders s) of
        Response code text \<Rightarrow>
          if code = 200 then (Inr (PyStr text), s\<lparr>renders := renders s + 1\<rparr>)
          else jina_loop w url rest (s\<lparr>renders := renders s + 1\<rparr>)
      | Raises e \<Rightarrow> jina_loop w url rest (sleep 10 (s\<lparr>renders := renders s + 1\<rparr>)))"

text \<open>\<open>url2md\<close>: the outer handler calls \<open>get_page_content_by_bs\<close> (with its default of 60
  attempts) when an exception leaves the loop.\<close>

definition url2md :: "env \<Rightarrow> pystr \<Rightarrow> nat \<Rightarrow> world \<Rightarrow> pyval \<times> world" where
  "url2md w url max_retries s =
     (case jina_loop w url [0..<max_retries] s of
        (Inl e, s') \<Rightarrow> get_page_content_by_bs w url 60 s'
      | (Inr md_content, s') \<Rightarrow> (md_content, s'))"

text \<open>The sentinel title returned by \<open>get_page_content_by_md\<close> (line 500
  of the source), as code points.\<close>

definition unknown_title :: pystr where
  "unknown_title = [0x672a, 0x77e5, 0x6807, 0x9898]"

text \<open>The message of the \<open>AttributeError\<close> for a missing method; 39 is the single
  quote.\<close>

definition no_attribute :: "pystr \<Rightarrow> pystr \<Rightarrow> pystr" where
  "no_attribute cls name =
     [39] @ cls @ [39] @ str '' object has no attribute '' @ [39] @ name @ [39]"

fun find_title :: "pystr list \<Rightarrow> pystr" where
  "find_title [] = unknown_title"
| "find_title (line # rest) =
     (if startswith line (str ''Title:'') then strip (replace (str ''Title:'') [] line)
      else find_title rest)"

text \<open>\<open>get_page_content_by_md\<close>: \<open>md_content.splitlines()\<close>
  exists for a string only.\<close>

fun get_page_content_by_md :: "pyval \<Rightarrow> exn + pystr" where
  "get_page_content_by_md (PyStr md_content) = Inr (find_title (splitlines md_content))"
| "get_page_content_by_md PyNone =
     Inl (AttributeError (no_attribute (str ''NoneType'') (str ''splitlines'')))"
| "get_page_content_by_md (PyTuple a b) =
     Inl (AttributeError (no_attribute (str ''tuple'') (str ''splitlines'')))"

section \<open>Notifications\<close>

text \<open>\<open>send_telegram_notification\<close>, awaited: the message is handed to the bot, whose
  \<open>send_message\<close> may raise; nothing in the function catches that.\<close>

definition send_telegram_notification :: "env \<Rightarrow> pystr \<Rightarrow> world \<Rightarrow> (exn + unit) \<times> world" where
  "send_telegram_notification w msg s =
     (case send_message w (length (sent s)) of
        None \<Rightarrow> (Inr (), s\<lparr>sent := sent s @ [msg]\<rparr>)
      | Some e \<Rightarrow> (Inl e, s\<lparr>sent := sent s @ [msg]\<rparr>))"

text \<open>\<open>asyncio.create_task(self.send_telegram_notification(msg))\<close> inside
  \<open>try ... except Exception\<close>: with a running event loop the notification is scheduled and
  its outcome never reaches the caller; without one \<open>create_task\<close> raises and the handler
  only logs.\<close>

definition create_task :: "env \<Rightarrow> pystr \<Rightarrow> world \<Rightarrow> world" where
  "create_task w msg s = (if loop_running w then s\<lparr>tasks := tasks s @ [msg]\<rparr> else s)"

section \<open>generate_summary_tags\<close>

text \<open>The label of the summary line, the label of the tag line and the full-width
  comma that separates tags (lines 405 to 408 of the source), as code points.\<close>

definition summary_label :: pystr where
  "summary_label = [0x6458, 0x8981, 0xff1a]"

definition tags_label :: pystr where
  "tags_label = [0x6807, 0x7b7e, 0xff1a]"

definition wide_comma :: nat where
  "wide_comma = 0xff0c"

text \<open>The loop \<open>for line in result.split('\n')\<close> over the variables \<open>summary\<close> and
  \<open>tags\<close>.\<close>

fun parse_lines :: "pystr list \<Rightarrow> pystr \<Rightarrow> pystr list \<Rightarrow> pystr \<times> pystr list" where
  "parse_lines [] smry tgs = (smry, tgs)"
| "parse_lines (line # rest) smry tgs =
     (if startswith line summary_label
      then parse_lines rest (strip (replace summary_label [] line)) tgs
      else if startswith line tags_label
      then parse_lines rest smry (map strip (split wide_comma (replace tags_label [] line)))
      else parse_lines rest smry tgs)"

text \<open>The message of the \<open>ValueError\<close> (line 411 of the source), as code
  points.\<close>

definition bad_format :: pystr where
  "bad_format = str ''AI '' @ [0x54cd, 0x5e94, 0x683c, 0x5f0f, 0x4e0d, 0x6b63, 0x786e]"

text \<open>The check \<open>if not summary or not tags: raise ValueError\<close> and the
  \<open>return\<close>.\<close>

definition parse_result :: "pystr \<Rightarrow> exn + pystr \<times> pystr list" where
  "parse_result result =
     (case parse_lines (split 10 result) [] [] of
        (smry, tgs) \<Rightarrow>
          if smry = [] \<or> tgs = [] then Inl (ValueError bad_format) else Inr (smry, tgs))"

text \<open>The body of the inner \<open>try\<close>: one call of the provider and the parse of its answer.
  The call is scripted whatever the prompt; a blocked Gemini prompt is a call that raises.
  For Gemini an answer that is blank raises before the parse.\<close>

definition ai_try :: "config \<Rightarrow> env \<Rightarrow> world \<Rightarrow> (exn + pystr \<times> pystr list) \<times> world" where
  "ai_try cfg w s =
     (case completion w (completions s) of
        Inl e \<Rightarrow> (Inl e, s\<lparr>completions := completions s + 1\<rparr>)
      | Inr result \<Rightarrow>
          if ai_provider cfg = Gemini \<and> strip result = []
          then (Inl (Exception (str ''Empty response from Gemini'')),
                s\<lparr>completions := completions s + 1\<rparr>)
          else (parse_result result, s\<lparr>completions := completions s + 1\<rparr>))"

text \<open>The loop \<open>for attempt in range(max_retries)\<close>; the test
  \<open>attempt == max_retries - 1\<close>
  is written without the subtraction. A loop that makes no attempt leaves the function
  without a \<open>return\<close>: \<open>Inr None\<close>.\<close>

fun ai_loop ::
  "config \<Rightarrow> env \<Rightarrow> nat \<Rightarrow> nat list \<Rightarrow> world \<Rightarrow> (exn + (pystr \<times> pystr list) option) \<times> world" where
  "ai_loop cfg w max_retries [] s = (Inr None, s)"
| "ai_loop cfg w max_retries (attempt # rest) s =
     (case ai_try cfg w s of
        (Inr r, s') \<Rightarrow> (Inr (Some r), s')
      | (Inl e, s') \<Rightarrow>
          if attempt + 1 = max_retries then (Inl e, s')
          else ai_loop cfg w max_retries rest (sleep (2 ^ attempt) s'))"

definition ai_max_retries :: "config \<Rightarrow> nat" where
  "ai_max_retries cfg = (case openai_max_retries cfg of None \<Rightarrow> 3 | Some n \<Rightarrow> n)"

text \<open>The body of the outer \<open>try\<close>: building the prompt needs \<open>content[:5000]\<close> to be a
  string that can be appended to a string, which fails with \<open>TypeError\<close> for \<open>None\<close> and
  for a tuple.\<close>

fun ai_outer_try ::
  "config \<Rightarrow> env \<Rightarrow> pyval \<Rightarrow> world \<Rightarrow> (exn + (pystr \<times> pystr list) option) \<times> world" where
  "ai_outer_try cfg w (PyStr content) s = ai_loop cfg w (ai_max_retries cfg) [0..<ai_max_retries cfg] s"
| "ai_outer_try cfg w PyNone s =
     (Inl (TypeError ([39] @ str ''NoneType'' @ [39] @ str '' object is not subscriptable'')), s)"
| "ai_outer_try cfg w (PyTuple a b) s =
     (Inl (TypeError (str ''can only concatenate str (not '' @ [34] @ str ''tuple'' @ [34]
                      @ str '') to str'')), s)"

text \<open>The prefix of the AI alert (line 426 of the source), the default summary and the
  default tag (lines 433, 434 and 447), as code points.\<close>

definition ai_alert :: pystr where
  "ai_alert = [0x26a0, 0xfe0f, 0x20, 0x41, 0x49, 0x20, 0x670d, 0x52a1, 0x5931, 0x6548, 0x63d0,
               0x9192, 0xa, 0xa, 0x9519, 0x8bef, 0x4fe1, 0x606f, 0xff1a]"

definition no_summary :: pystr where
  "no_summary = [0x65e0, 0x6cd5, 0x751f, 0x6210, 0x6458, 0x8981]"

definition uncategorized :: pystr where
  "uncategorized = [0x672a, 0x5206, 0x7c7b]"

definition flag :: "bool option \<Rightarrow> bool" where
  "flag b = (case b of None \<Rightarrow> True | Some v \<Rightarrow> v)"

definition generate_summary_tags ::
  "config \<Rightarrow> env \<Rightarrow> pyval \<Rightarrow> world \<Rightarrow> (exn + (pystr \<times> pystr list) option) \<times> world" where
  "generate_summary_tags cfg w content s =
     (case ai_outer_try cfg w content s of
        (Inr r, s') \<Rightarrow> (Inr r, s')
      | (Inl e, s') \<Rightarrow>
          (let s'' = (if flag (notify_on_ai_error cfg) then create_task w (ai_alert @ message e) s'
                      else s')
           in if flag (skip_ai_on_error cfg)
              then (Inr (Some (case default_summary cfg of None \<Rightarrow> no_summary | Some d \<Rightarrow> d,
                               case default_tags cfg of None \<Rightarrow> [uncategorized] | Some d \<Rightarrow> d)),
                    s'')
              else (Inl e, s'')))"

section \<open>save_to_notion\<close>

text \<open>The dict handed to \<open>save_to_notion\<close>; \<open>original_url\<close>
  may be \<open>None\<close>.\<close>

record clip =
  title :: pystr
  original_url :: "pystr option"
  snapshot_url :: pystr
  summary :: pystr
  tags :: "pystr list"
  created_at :: int

text \<open>The payload built in the \<open>try\<close> of each attempt, given the text of the
  time.\<close>

definition notion_properties :: "pystr \<Rightarrow> clip \<Rightarrow> properties" where
  "notion_properties current_time d =
     (let tgs = (if tags d = [] then [uncategorized] else tags d)
      in \<lparr>Title = title d,
          OriginalURL = (case original_url d of
                           None \<Rightarrow> None
                         | Some u \<Rightarrow> if u = [] then None else Some u),
          SnapshotURL = snapshot_url d,
          Summary = summary d,
          Tags = filter (\<lambda>tag. strip tag \<noteq> []) tgs,
          Created = current_time\<rparr>)"

text \<open>The body of the \<open>try\<close> of one attempt: the text of the time, which may raise before
  any payload exists, the payload, and \<open>pages.create\<close>, whose answer is the URL of the new
  page or an exception. A payload handed to \<open>pages.create\<close> is recorded in \<open>pages\<close> whatever
  the answer.\<close>

definition save_try :: "env \<Rightarrow> clip \<Rightarrow> world \<Rightarrow> (exn + pystr) \<times> world" where
  "save_try w d s =
     (case iso8601 w (created_at d) of
        Inl e \<Rightarrow> (Inl e, s)
      | Inr current_time \<Rightarrow>
          (pages_create w (length (pages s)),
           s\<lparr>pages := pages s @ [notion_properties current_time d]\<rparr>))"

text \<open>The first lines of the handler: \<open>if hasattr(e, 'response')\<close> the text
  \<open>e.response.text\<close> is read for the log, and an exception of that read leaves the
  function at once.\<close>

definition log_response :: "env \<Rightarrow> exn \<Rightarrow> exn option" where
  "log_response w e =
     (case response_text w e of
        None \<Rightarrow> None
      | Some (Inr body) \<Rightarrow> None
      | Some (Inl e') \<Rightarrow> Some e')"

text \<open>The prefix of the Notion failure message (line 482 of the source), as code
  points.\<close>

definition notion_failed :: pystr where
  "notion_failed = [0x274c, 0x20] @ str ''Notion '' @ [0x4fdd, 0x5b58, 0x5931, 0x8d25] @ str '': ''"

text \<open>The loop of \<open>save_to_notion\<close> with \<open>max_retries = 3\<close> and \<open>retry_delay = 2\<close>, and its
  handler.\<close>

fun save_loop ::
  "config \<Rightarrow> env \<Rightarrow> clip \<Rightarrow> nat \<Rightarrow> nat \<Rightarrow> nat list \<Rightarrow> world \<Rightarrow> (exn + pystr option) \<times> world" where
  "save_loop cfg w d max_retries retry_delay [] s = (Inr None, s)"
| "save_loop cfg w d max_retries retry_delay (attempt # rest) s =
     (case save_try w d s of
        (Inr url, s1) \<Rightarrow> (Inr (Some url), s1)
      | (Inl e, s1) \<Rightarrow>
          (case log_response w e of
             Some e' \<Rightarrow> (Inl e', s1)
           | None \<Rightarrow>
               if attempt + 1 < max_retries
               then save_loop cfg w d max_retries retry_delay rest
                      (sleep (retry_delay * 2 ^ attempt) s1)
               else (let s2 = create_task w (notion_failed @ message e) s1
                     in if flag (skip_notion_on_error cfg)
                        then (Inr (Some (str ''https://www.notion.so/error-saving'')), s2)
                        else (Inl e, s2))))"

definition save_to_notion ::
  "config \<Rightarrow> env \<Rightarrow> clip \<Rightarrow> world \<Rightarrow> (exn + pystr option) \<times> world" where
  "save_to_notion cfg w d s = save_loop cfg w d 3 2 [0..<3] s"

section \<open>process_file\<close>

record result =
  status :: pystr
  github_url :: pystr
  notion_url :: "pystr option"

text \<open>The message of the \<open>TypeError\<close> raised when \<open>None\<close> is
  unpacked into two names.\<close>

definition cannot_unpack :: exn where
  "cannot_unpack = TypeError (str ''cannot unpack non-iterable NoneType object'')"

text \<open>The success notification, an f-string over the title, the summary and the three
  URLs.\<close>

definition notification :: "pystr \<Rightarrow> pystr \<Rightarrow> pystr \<Rightarrow> pystr \<Rightarrow> pystr option \<Rightarrow> pystr" where
  "notification ttl smry orig snapshot note =
     [0x2728, 0x20, 0x65b0, 0x7684, 0x7f51, 0x9875, 0x526a, 0x85cf, 0xa, 0xa]
     @ [0x1f4d1, 0x20] @ ttl @ [0xa, 0xa]
     @ [0x1f4dd, 0x20] @ smry @ [0xa, 0xa]
     @ [0x1f517, 0x20, 0x539f, 0x59cb, 0x94fe, 0x63a5, 0xff1a] @ orig @ [0xa]
     @ [0x1f4da, 0x20, 0x5feb, 0x7167, 0x94fe, 0x63a5, 0xff1a] @ snapshot @ [0xa]
     @ [0x1f4da, 0x20] @ str ''Notion'' @ [0x7b14, 0x8bb0, 0x3a, 0x20] @ format_opt note"

text \<open>The prefix of the failure message of \<open>process_file\<close> (line 204 of
  the source), as code points.\<close>

definition processing_failed :: pystr where
  "processing_failed = [0x274c, 0x20, 0x5904, 0x7406, 0x5931, 0x8d25, 0x3a, 0x20]"

text \<open>The body of the \<open>try\<close> of \<open>process_file\<close>, step by step; every exception of a step
  leaves the body.\<close>

definition process_try ::
  "config \<Rightarrow> env \<Rightarrow> pystr \<Rightarrow> pystr \<Rightarrow> world \<Rightarrow> (exn + result) \<times> world" where
  "process_try cfg w file_path declared_url s =
     (case upload_to_github cfg w file_path s of
        (Inl e, s1) \<Rightarrow> (Inl e, s1)
      | (Inr None, s1) \<Rightarrow> (Inl cannot_unpack, s1)
      | (Inr (Some (filename, snapshot)), s1) \<Rightarrow>
          (case url2md w snapshot 30 s1 of
             (md_content, s2) \<Rightarrow>
               (case get_page_content_by_md md_content of
                  Inl e \<Rightarrow> (Inl e, s2)
                | Inr ttl \<Rightarrow>
                    (case (if declared_url = []
                           then (case parse_filename filename ''original_url'' of
                                   None \<Rightarrow> Inl (KeyError ([39] @ str ''original_url'' @ [39]))
                                 | Some u \<Rightarrow> Inr u)
                           else Inr declared_url) of
                       Inl e \<Rightarrow> (Inl e, s2)
                     | Inr orig \<Rightarrow>
                         (case generate_summary_tags cfg w md_content s2 of
                            (Inl e, s3) \<Rightarrow> (Inl e, s3)
                          | (Inr None, s3) \<Rightarrow> (Inl cannot_unpack, s3)
                          | (Inr (Some (smry, tgs)), s3) \<Rightarrow>
                              (case save_to_notion cfg w
                                      \<lparr>title = ttl, original_url = Some orig,
                                       snapshot_url = snapshot, summary = smry, tags = tgs,
                                       created_at = time_now w\<rparr> s3 of
                                 (Inl e, s4) \<Rightarrow> (Inl e, s4)
                               | (Inr note, s4) \<Rightarrow>
                                   (case send_telegram_notification w
                                           (notification ttl smry orig snapshot note) s4 of
                                      (Inl e, s5) \<Rightarrow> (Inl e, s5)
                                    | (Inr u, s5) \<Rightarrow>
                                        (Inr \<lparr>status = str ''success'', github_url = snapshot,
                                              notion_url = note\<rparr>, s5))))))))"

text \<open>\<open>process_file\<close>: the handler sends the failure message and then re-raises with a bare
  \<open>raise\<close>; an exception of the send itself leaves the handler in place of the first
  one.\<close>

definition process_file ::
  "config \<Rightarrow> env \<Rightarrow> pystr \<Rightarrow> pystr \<Rightarrow> world \<Rightarrow> (exn + result) \<times> world" where
  "process_file cfg w file_path declared_url s =
     (case process_try cfg w file_path declared_url s of
        (Inr r, s') \<Rightarrow> (Inr r, s')
      | (Inl e, s') \<Rightarrow>
          (case send_telegram_notification w (processing_failed @ message e) s' of
             (Inl e', s'') \<Rightarrow> (Inl e', s'')
           | (Inr u, s'') \<Rightarrow> (Inl e, s'')))"

section \<open>A sample configuration and a sample outside world\<close>

text \<open>A configuration with every optional key left out, and an outside world in which
  every call succeeds at once: the page is deployed, the renderer answers with a title
  line and a body, the AI answers in the required format, Notion and Telegram accept.
  Particular failures are obtained by updating one answer.\<close>

definition sample_config :: config where
  "sample_config =
     \<lparr>github_repo = str ''owner/clips'', github_pages_domain = str ''owner.github.io'',
      github_pages_max_retries = None, ai_provider = OpenAI, openai_max_retries = None,
      notify_on_ai_error = None, skip_ai_on_error = None, default_summary = None,
      default_tags = None, skip_notion_on_error = None\<rparr>"

text \<open>What the libraries make of the empty text: no title, no heading, and two newlines
  as converted text.\<close>

definition empty_page :: soup where
  "empty_page = \<lparr>title_string = None, h1_text = None, find_text = (\<lambda>tag. None), markdown = [10, 10]\<rparr>"

definition sample_markdown :: pystr where
  "sample_markdown = str ''Title: Example'' @ [10] @ str ''Body''"

definition sample_answer :: pystr where
  "sample_answer =
     summary_label @ str ''short'' @ [10] @ tags_label @ str ''a'' @ [wide_comma] @ str ''b''"

definition sample_time :: pystr where
  "sample_time = str ''1970-01-01T00:00:00.000Z''"

definition calm :: env where
  "calm =
     \<lparr>read_file = (\<lambda>path. Inr (str ''<html></html>'')),
      create_file = (\<lambda>k. None),
      deploy_get = (\<lambda>k. Response 200 []),
      jina_get = (\<lambda>k. Response 200 sample_markdown),
      page_get = (\<lambda>k. Response 200 []),
      parse_html = (\<lambda>text. Inr empty_page),
      completion = (\<lambda>k. Inr sample_answer),
      pages_create = (\<lambda>k. Inr (str ''https://www.notion.so/page'')),
      send_message = (\<lambda>k. None),
      loop_running = True,
      time_now = 0,
      iso8601 = (\<lambda>t. Inr sample_time),
      response_text = (\<lambda>e. None)\<rparr>"

definition sample_name :: pystr where
  "sample_name = str ''0123456789abcdef_https:$$example.com$page.html''"

definition sample_path :: pystr where
  "sample_path = str ''uploads/'' @ sample_name"

definition sample_url :: pystr where
  "sample_url = str ''https://owner.github.io/clips/clips/'' @ sample_name"

text \<open>The dict that \<open>process_file\<close> hands to \<open>save_to_notion\<close> in the sample world, for a
  given summary and given tags.\<close>

definition sample_clip :: "pystr \<Rightarrow> pystr list \<Rightarrow> clip" where
  "sample_clip smry tgs =
     \<lparr>title = str ''Example'', original_url = Some (str ''https://example.com/page''),
      snapshot_url = sample_url, summary = smry, tags = tgs, created_at = 0\<rparr>"

text \<open>An answer of the AI whose tag line has nothing after the label.\<close>

definition blank_tags_answer :: pystr where
  "blank_tags_answer = summary_label @ str ''short'' @ [10] @ tags_label"

text \<open>A request that is answered with status 200.\<close>

definition is_ok :: "http \<Rightarrow> bool" where
  "is_ok h = (case h of Response code text \<Rightarrow> code = 200 | Raises e \<Rightarrow> False)"


section \<open>Properties of parse_filename\<close>

lemma replace_single:
  "replace [a] [b] s = map (\<lambda>c. if c = a then b else c) s"
  by (induction s) auto

lemma rsplit1_ext:
  assumes "d \<notin> set ext"
  shows "rsplit1 d (body @ d # ext) = [body, ext]"
proof -
  have r: "rev (body @ d # ext) = rev ext @ d # rev body"
    by simp
  have t: "takeWhile (\<lambda>c. c \<noteq> d) (rev ext @ d # rev body) = rev ext"
    using assms by (subst takeWhile_append2) auto
  have dr: "dropWhile (\<lambda>c. c \<noteq> d) (rev ext @ d # rev body) = d # rev body"
    using assms by (subst dropWhile_append2) auto
  show ?thesis
    unfolding rsplit1_def r t dr by simp
qed

lemma split1_prefix:
  assumes "u \<notin> set p"
  shows "split1 u (p @ u # rest) = [p, rest]"
proof -
  have t: "takeWhile (\<lambda>c. c \<noteq> u) (p @ u # rest) = p"
    using assms by (subst takeWhile_append2) auto
  have dr: "dropWhile (\<lambda>c. c \<noteq> u) (p @ u # rest) = u # rest"
    using assms by (subst dropWhile_append2) auto
  show ?thesis
    unfolding split1_def t dr by simp
qed

lemma subscript_rsplit1:
  "d \<notin> set ext \<Longrightarrow> subscript (rsplit1 d (body @ d # ext)) 0 = Inr body"
  by (simp add: rsplit1_ext subscript_def)

lemma subscript_split1:
  "u \<notin> set p \<Longrightarrow> subscript (split1 u (p @ u # rest)) 1 = Inr rest"
  by (simp add: split1_prefix subscript_def)

text \<open>
  C6, the claim as stated, fails on its own example: the stored name has no extension, so
  the removal of what follows the last \<open>.\<close> cuts the host name, and the decoded URL is
  \<open>https://example\<close>.
\<close>

theorem parse_filename_example_without_extension:
  "parse_filename (str ''abc123_https:$$example.com$page'') ''original_url''
     = Some (str ''https://example'')
   \<and> str ''https://example'' \<noteq> str ''https://example.com/page''"
  by code_simp

text \<open>
  C6, amended: for a stored name \<open>prefix_body.ext\<close>, where the prefix has no \<open>_\<close> and the
  extension has no \<open>.\<close>, \<open>parse_filename\<close> removes the extension after the last \<open>.\<close>,
  removes the prefix up to the first \<open>_\<close>, and maps every \<open>$\<close> of the body to \<open>/\<close>.
  For \<open>abc123_https:$$example.com$page.html\<close> this is \<open>https://example.com/page\<close>.
\<close>

theorem parse_filename_decodes:
  assumes "of_char (CHR ''_'') \<notin> set prefix" and "of_char (CHR ''.'') \<notin> set ext"
  shows "parse_filename (prefix @ str ''_'' @ body @ str ''.'' @ ext) ''original_url''
           = Some (map (\<lambda>c. if c = of_char (CHR ''$'') then of_char (CHR ''/'') else c) body)"
proof -
  let ?d = "of_char (CHR ''.'') :: nat" and ?u = "of_char (CHR ''_'') :: nat"
  have name: "prefix @ str ''_'' @ body @ str ''.'' @ ext = (prefix @ ?u # body) @ ?d # ext"
    by (simp add: str_def)
  have cut: "subscript (rsplit1 ?d ((prefix @ ?u # body) @ ?d # ext)) 0 = Inr (prefix @ ?u # body)"
    using assms(2) by (rule subscript_rsplit1)
  have mem: "?u \<in> set (prefix @ ?u # body)"
    by simp
  have pre: "subscript (split1 ?u (prefix @ ?u # body)) 1 = Inr body"
    using assms(1) by (rule subscript_split1)
  have dollar: "replace (str ''$'') (str ''/'') body
                  = map (\<lambda>c. if c = of_char (CHR ''$'') then of_char (CHR ''/'') else c) body"
    unfolding str_def by (simp add: replace_single)
  have "parse_filename_try (prefix @ str ''_'' @ body @ str ''.'' @ ext)
          = Inr [''original_url'' \<mapsto>
                  map (\<lambda>c. if c = of_char (CHR ''$'') then of_char (CHR ''/'') else c) body]"
    unfolding parse_filename_try_def name cut
    by (simp only: sum.case mem if_True pre dollar)
  then show ?thesis
    unfolding parse_filename_def by simp
qed

theorem parse_filename_decodes_witness:
  "of_char (CHR ''_'') \<notin> set (str ''abc123'') \<and> of_char (CHR ''.'') \<notin> set (str ''html'')
   \<and> parse_filename (str ''abc123_https:$$example.com$page.html'') ''original_url''
        = Some (str ''https://example.com/page'')"
proof -
  have p: "of_char (CHR ''_'') \<notin> set (str ''abc123'')"
    by (simp add: str_def)
  have e: "of_char (CHR ''.'') \<notin> set (str ''html'')"
    by (simp add: str_def)
  have "parse_filename (str ''abc123'' @ str ''_'' @ str ''https:$$example.com$page'' @ str ''.''
          @ str ''html'') ''original_url''
        = Some (map (\<lambda>c. if c = of_char (CHR ''$'') then of_char (CHR ''/'') else c)
                  (str ''https:$$example.com$page''))"
    using parse_filename_decodes [OF p e] .
  then show ?thesis
    using p e by (simp add: str_def)
qed

text \<open>
  C10: \<open>parse_filename\<close> is total. For every filename the body of the \<open>try\<close> returns a
  dict whose only key is \<open>original_url\<close> (neither subscript is out of range), and that dict
  is the result; the handler of the \<open>except\<close> branch gives the empty string for that key.
\<close>

theorem parse_filename_total:
  "(\<exists>u. parse_filename_try filename = Inr [''original_url'' \<mapsto> u]
        \<and> parse_filename filename = [''original_url'' \<mapsto> u])
   \<and> parse_filename_except e ''original_url'' = Some []"
  by (auto simp: parse_filename_def parse_filename_try_def parse_filename_except_def
      subscript_def rsplit1_def split1_def simp del: replace.simps)

section \<open>The sample world\<close>

lemma basename_sample_path: "basename sample_path = sample_name"
  by (simp add: basename_def sample_path_def sample_name_def str_def)

lemma github_url_of_sample: "github_url_of sample_config sample_name = Inr sample_url"
  by (simp add: github_url_of_def sample_config_def sample_url_def subscript_def str_def)

lemma max_deploy_retries_sample: "max_deploy_retries sample_config = 60"
  by (simp add: max_deploy_retries_def sample_config_def)

section \<open>The deploy poll\<close>



lemma upload_try_refused:
  "create_file w (uploads s) = Some e \<Longrightarrow>
   upload_try cfg w filename s = (Inl e, s\<lparr>uploads := uploads s + 1\<rparr>)"
  by (simp add: upload_try_def)




section \<open>Publish failures\<close>

lemma range5: "[0..<5] = [0, 1, 2, 3, 4]"
  by (simp add: upt_rec)

text \<open>Five refused uploads: the error of the fifth is wrapped in a \<open>RuntimeError\<close>, after
  sleeps of 3, 6, 12 and 24 seconds.\<close>

lemma upload_exhausted:
  assumes "read_file w html_path = Inr content"
    and "\<And>k. k < 5 \<Longrightarrow> create_file w (uploads s + k) = Some (err k)"
  shows "upload_to_github cfg w html_path s
           = (Inl (RuntimeError (upload_failed @ message (err 4))),
              s\<lparr>uploads := uploads s + 5, sleeps := sleeps s @ [3, 6, 12, 24]\<rparr>)"
proof -
  have c0: "create_file w (uploads s) = Some (err 0)" using assms(2) [of 0] by simp
  have c1: "create_file w (Suc (uploads s)) = Some (err 1)" using assms(2) [of 1] by simp
  have c2: "create_file w (Suc (Suc (uploads s))) = Some (err 2)" using assms(2) [of 2] by simp
  have c3: "create_file w (Suc (Suc (Suc (uploads s)))) = Some (err 3)"
    using assms(2) [of 3] by (simp add: eval_nat_numeral)
  have c4: "create_file w (Suc (Suc (Suc (Suc (uploads s))))) = Some (err 4)"
    using assms(2) [of 4] by (simp add: eval_nat_numeral)
  show ?thesis
    using assms(1) c0 c1 c2 c3 c4
    by (simp add: upload_to_github_def range5 upload_try_refused sleep_def)
qed

text \<open>Whatever makes \<open>upload_to_github\<close> raise: \<open>process_file\<close> raises too, hands no
  payload to Notion, and sends the failure message first. The exception that reaches the
  caller is that of the upload when the message is delivered, and that of the delivery
  otherwise.\<close>

lemma process_file_publish_error:
  assumes "upload_to_github cfg w file_path s = (Inl e, s1)"
  shows "process_file cfg w file_path declared_url s
           = (case send_message w (length (sent s1)) of
                None \<Rightarrow> (Inl e, s1\<lparr>sent := sent s1 @ [processing_failed @ message e]\<rparr>)
              | Some e' \<Rightarrow> (Inl e', s1\<lparr>sent := sent s1 @ [processing_failed @ message e]\<rparr>))"
  using assms
  by (simp add: process_file_def process_try_def send_telegram_notification_def
      split: option.splits)

text \<open>The upload hands nothing to Notion and sends no message, so a failed publish leaves
  \<open>process_file\<close> with an error for the caller, no payload handed to Notion, and the
  failure message as the only message sent.\<close>

lemma deploy_loop_keeps:
  "pages (snd (deploy_loop w as s)) = pages s \<and> sent (snd (deploy_loop w as s)) = sent s"
  by (induction as arbitrary: s) (auto simp: sleep_def split: http.splits)

lemma upload_try_keeps:
  "pages (snd (upload_try cfg w filename s)) = pages s
   \<and> sent (snd (upload_try cfg w filename s)) = sent s"
proof -
  let ?s = "s\<lparr>uploads := uploads s + 1\<rparr>"
  obtain r s' where run: "deploy_loop w [0..<max_deploy_retries cfg] ?s = (r, s')"
    by (cases "deploy_loop w [0..<max_deploy_retries cfg] ?s")
  have "pages s' = pages s \<and> sent s' = sent s"
    using deploy_loop_keeps [of w "[0..<max_deploy_retries cfg]" ?s] run by simp
  then show ?thesis
    unfolding upload_try_def run by (auto split: option.splits sum.splits)
qed

lemma upload_loop_keeps:
  "pages (snd (upload_loop cfg w filename max_retries as retry_delay s)) = pages s
   \<and> sent (snd (upload_loop cfg w filename max_retries as retry_delay s)) = sent s"
proof (induction as arbitrary: retry_delay s)
  case Nil
  then show ?case by simp
next
  case (Cons a as)
  obtain r s' where run: "upload_try cfg w filename s = (r, s')"
    by (cases "upload_try cfg w filename s")
  have keep: "pages s' = pages s \<and> sent s' = sent s"
    using upload_try_keeps [of cfg w filename s] run by simp
  show ?case
    using keep Cons.IH [of "retry_delay * 2" "sleep retry_delay s'"]
    by (auto simp: run sleep_def split: sum.splits)
qed

lemma upload_to_github_keeps:
  "pages (snd (upload_to_github cfg w html_path s)) = pages s
   \<and> sent (snd (upload_to_github cfg w html_path s)) = sent s"
  by (simp add: upload_to_github_def upload_loop_keeps split: sum.splits)

lemma publish_error_aborts:
  assumes "fst (upload_to_github cfg w file_path s) = Inl e"
  shows "(\<exists>e'. fst (process_file cfg w file_path declared_url s) = Inl e')
         \<and> (send_message w (length (sent s)) = None \<longrightarrow>
              fst (process_file cfg w file_path declared_url s) = Inl e)
         \<and> pages (snd (process_file cfg w file_path declared_url s)) = pages s
         \<and> sent (snd (process_file cfg w file_path declared_url s))
             = sent s @ [processing_failed @ message e]"
proof -
  obtain s1 where run: "upload_to_github cfg w file_path s = (Inl e, s1)"
    using assms by (cases "upload_to_github cfg w file_path s") simp
  have keep: "pages s1 = pages s \<and> sent s1 = sent s"
    using upload_to_github_keeps [of cfg w file_path s] run by simp
  show ?thesis
    unfolding process_file_publish_error [OF run]
    using keep by (simp split: option.splits)
qed

text \<open>
  C1 at a failing input: GitHub refuses all five uploads and Telegram refuses the failure
  message. \<open>process_file\<close> makes five upload attempts with sleeps of 3, 6, 12 and 24
  seconds, hands nothing to Notion and attempts the failure notification, but the
  exception that reaches the caller is the one of the notification, not the
  \<open>RuntimeError\<close> of the upload.
\<close>

theorem publish_exhausted_notification_fails:
  "process_file sample_config
     (calm\<lparr>create_file := (\<lambda>k. Some (Exception (str ''github down''))),
           send_message := (\<lambda>k. Some (Exception (str ''telegram down'')))\<rparr>)
     sample_path [] start
   = (Inl (Exception (str ''telegram down'')),
      start\<lparr>uploads := 5,
            sent := [processing_failed @ upload_failed @ str ''github down''],
            sleeps := [3, 6, 12, 24]\<rparr>)"
proof -
  let ?w = "calm\<lparr>create_file := (\<lambda>k. Some (Exception (str ''github down''))),
                 send_message := (\<lambda>k. Some (Exception (str ''telegram down'')))\<rparr>"
  have "upload_to_github sample_config ?w sample_path start
          = (Inl (RuntimeError (upload_failed @ message (Exception (str ''github down'')))),
             start\<lparr>uploads := uploads start + 5, sleeps := sleeps start @ [3, 6, 12, 24]\<rparr>)"
    by (rule upload_exhausted [where content = "str ''<html></html>''"]) (simp_all add: calm_def)
  then show ?thesis
    by (simp add: process_file_publish_error [where declared_url = "[]"] start_def calm_def)
qed

section \<open>Extraction\<close>

lemma jina_loop_miss:
  "(\<And>k. k < length as \<Longrightarrow> \<not> is_ok (jina_get w (renders s + k))) \<Longrightarrow>
   fst (jina_loop w url as s) = Inr PyNone
   \<and> renders (snd (jina_loop w url as s)) = renders s + length as
   \<and> fetches (snd (jina_loop w url as s)) = fetches s"
proof (induction as arbitrary: s)
  case Nil
  then show ?case by simp
next
  case (Cons a as)
  have first: "\<not> is_ok (jina_get w (renders s))"
    using Cons.prems [of 0] by simp
  show ?case
  proof (cases "jina_get w (renders s)")
    case (Response code body)
    let ?s = "s\<lparr>renders := renders s + 1\<rparr>"
    have later: "\<And>k. k < length as \<Longrightarrow> \<not> is_ok (jina_get w (renders ?s + k))"
      using Cons.prems [of "Suc _"] by simp
    have step: "jina_loop w url (a # as) s = jina_loop w url as ?s"
      using first Response by (simp add: is_ok_def)
    show ?thesis
      unfolding step using Cons.IH [OF later] by simp
  next
    case (Raises e)
    let ?s = "sleep 10 (s\<lparr>renders := renders s + 1\<rparr>)"
    have later: "\<And>k. k < length as \<Longrightarrow> \<not> is_ok (jina_get w (renders ?s + k))"
      using Cons.prems [of "Suc _"] by (simp add: sleep_def)
    have step: "jina_loop w url (a # as) s = jina_loop w url as ?s"
      using Raises by simp
    show ?thesis
      unfolding step using Cons.IH [OF later] by (simp add: sleep_def)
  qed
qed

text \<open>No exception leaves the loop over the renderer, so the handler that calls
  \<open>get_page_content_by_bs\<close> is never entered: \<open>url2md\<close> fetches the page directly in no
  run at all.\<close>

lemma jina_loop_returns:
  "\<exists>v. fst (jina_loop w url as s) = Inr v"
  by (induction as arbitrary: s) (auto split: http.splits)

lemma jina_loop_fetches:
  "fetches (snd (jina_loop w url as s)) = fetches s"
  by (induction as arbitrary: s) (auto simp: sleep_def split: http.splits)

lemma url2md_never_fetches:
  "fetches (snd (url2md w url max_retries s)) = fetches s"
proof -
  obtain r s' where run: "jina_loop w url [0..<max_retries] s = (r, s')"
    by (cases "jina_loop w url [0..<max_retries] s")
  obtain v where "r = Inr v"
    using jina_loop_returns [of w url "[0..<max_retries]" s] run by auto
  moreover have "fetches s' = fetches s"
    using jina_loop_fetches [of w url "[0..<max_retries]" s] run by simp
  ultimately show ?thesis
    by (simp add: url2md_def run)
qed

text \<open>
  C3 at the failing inputs: when none of the 30 requests to the renderer is answered with
  status 200, \<open>url2md\<close> returns \<open>None\<close> after 30 requests and never fetches the page
  directly; the fallback path is not taken.
\<close>

theorem url2md_exhausted:
  assumes "\<forall>k<30. \<not> is_ok (jina_get w (renders s + k))"
  shows "fst (url2md w url 30 s) = PyNone
         \<and> renders (snd (url2md w url 30 s)) = renders s + 30
         \<and> fetches (snd (url2md w url 30 s)) = fetches s"
proof -
  obtain r s' where run: "jina_loop w url [0..<30] s = (r, s')"
    by (cases "jina_loop w url [0..<30] s")
  have "fst (jina_loop w url [0..<30] s) = Inr PyNone
        \<and> renders (snd (jina_loop w url [0..<30] s)) = renders s + length [0..<30]
        \<and> fetches (snd (jina_loop w url [0..<30] s)) = fetches s"
    using assms by (intro jina_loop_miss) simp
  then show ?thesis
    by (simp add: url2md_def run)
qed

theorem url2md_exhausted_witness:
  "\<not> is_ok (Response 404 [])
   \<and> fst (url2md (calm\<lparr>jina_get := (\<lambda>k. Response 404 [])\<rparr>) sample_url 30 start) = PyNone
   \<and> renders (snd (url2md (calm\<lparr>jina_get := (\<lambda>k. Response 404 [])\<rparr>) sample_url 30 start)) = 30
   \<and> fetches (snd (url2md (calm\<lparr>jina_get := (\<lambda>k. Response 404 [])\<rparr>) sample_url 30 start)) = 0"
proof -
  have h: "\<forall>k<30. \<not> is_ok (jina_get (calm\<lparr>jina_get := (\<lambda>k. Response 404 [])\<rparr>)
                               (renders start + k))"
    by (simp add: is_ok_def)
  have m: "\<not> is_ok (Response 404 [])"
    by (simp add: is_ok_def)
  show ?thesis
    using m url2md_exhausted [OF h, of sample_url]
    by (simp add: start_def)
qed

lemma bs_loop_miss:
  "(\<And>k. k < length as \<Longrightarrow> \<not> is_ok (page_get w (fetches s + k))) \<Longrightarrow>
   bs_loop w url as s
     = (PyTuple (basename url) [],
        s\<lparr>fetches := fetches s + length as, sleeps := sleeps s @ replicate (length as) 5\<rparr>)"
proof (induction as arbitrary: s)
  case Nil
  then show ?case by simp
next
  case (Cons a as)
  let ?s = "sleep 5 (s\<lparr>fetches := fetches s + 1\<rparr>)"
  have first: "\<not> is_ok (page_get w (fetches s))"
    using Cons.prems [of 0] by simp
  have later: "\<And>k. k < length as \<Longrightarrow> \<not> is_ok (page_get w (fetches ?s + k))"
    using Cons.prems [of "Suc _"] by (simp add: sleep_def)
  have step: "bs_loop w url (a # as) s = bs_loop w url as ?s"
    using first by (auto simp: is_ok_def split: http.splits)
  have ih: "bs_loop w url as ?s
      = (PyTuple (basename url) [],
         ?s\<lparr>fetches := fetches ?s + length as, sleeps := sleeps ?s @ replicate (length as) 5\<rparr>)"
    using later by (rule Cons.IH)
  show ?case
    unfolding step ih by (simp add: sleep_def)
qed

text \<open>The success path of \<open>get_page_content_by_bs\<close> returns one string.\<close>

lemma bs_first_ok:
  "page_get w (fetches s) = Response 200 body \<Longrightarrow> parse_html w body = Inr sp \<Longrightarrow>
   0 < max_retries \<Longrightarrow>
   get_page_content_by_bs w url max_retries s
     = (PyStr (bs_page sp), s\<lparr>fetches := fetches s + 1\<rparr>)"
  by (simp add: get_page_content_by_bs_def upt_conv_Cons)

text \<open>
  C9 at the failing inputs: when none of the 60 requests is answered with status 200,
  \<open>get_page_content_by_bs\<close> returns, without raising, the pair of the last path component
  of the URL and the empty string. That is not the shape of the success path, which
  returns one string: the pair is no string, and \<open>get_page_content_by_md\<close>, which takes
  the result of \<open>url2md\<close>, raises \<open>AttributeError\<close> on it.
\<close>

theorem get_page_content_by_bs_exhausted:
  assumes "\<forall>k<60. \<not> is_ok (page_get w (fetches s + k))"
  shows "fst (get_page_content_by_bs w url 60 s) = PyTuple (basename url) []
         \<and> (\<forall>page. fst (get_page_content_by_bs w url 60 s) \<noteq> PyStr page)
         \<and> get_page_content_by_md (fst (get_page_content_by_bs w url 60 s))
             = Inl (AttributeError (no_attribute (str ''tuple'') (str ''splitlines'')))"
proof -
  have "bs_loop w url [0..<60] s
          = (PyTuple (basename url) [],
             s\<lparr>fetches := fetches s + length [0..<60],
               sleeps := sleeps s @ replicate (length [0..<60]) 5\<rparr>)"
    using assms by (intro bs_loop_miss) simp
  then show ?thesis
    by (simp add: get_page_content_by_bs_def)
qed

theorem get_page_content_by_bs_exhausted_witness:
  "\<not> is_ok (Response 404 [])
   \<and> fst (get_page_content_by_bs (calm\<lparr>page_get := (\<lambda>k. Response 404 [])\<rparr>) sample_url 60 start)
       = PyTuple sample_name []
   \<and> fst (get_page_content_by_bs calm sample_url 60 start) = PyStr (bs_page empty_page)"
proof -
  have h: "\<forall>k<60. \<not> is_ok (page_get (calm\<lparr>page_get := (\<lambda>k. Response 404 [])\<rparr>)
                               (fetches start + k))"
    by (simp add: is_ok_def)
  have b: "basename sample_url = sample_name"
    by (simp add: basename_def sample_url_def sample_name_def str_def)
  have ok: "fst (get_page_content_by_bs calm sample_url 60 start) = PyStr (bs_page empty_page)"
    by (simp add: bs_first_ok [where body = "[]" and sp = empty_page] calm_def)
  have m: "\<not> is_ok (Response 404 [])"
    by (simp add: is_ok_def)
  show ?thesis
    using m ok get_page_content_by_bs_exhausted [OF h, of sample_url]
    by (simp add: b)
qed

section \<open>The steps of a successful run\<close>

lemma upload_first_ok:
  assumes "read_file w html_path = Inr content"
    and "create_file w (uploads s) = None"
    and "github_url_of cfg (basename html_path) = Inr public_url"
    and "deploy_get w (polls s) = Response 200 body"
    and "0 < max_deploy_retries cfg"
  shows "upload_to_github cfg w html_path s
           = (Inr (Some (basename html_path, public_url)),
              s\<lparr>uploads := uploads s + 1, polls := polls s + 1\<rparr>)"
proof -
  have "upload_try cfg w (basename html_path) s
          = (Inr (basename html_path, public_url), s\<lparr>uploads := uploads s + 1, polls := polls s + 1\<rparr>)"
    using assms(2-5) by (simp add: upload_try_def upt_conv_Cons)
  then show ?thesis
    using assms(1) by (simp add: upload_to_github_def upt_rec [of 0 5])
qed

lemma url2md_first_ok:
  "jina_get w (renders s) = Response 200 body \<Longrightarrow>
   url2md w url 30 s = (PyStr body, s\<lparr>renders := renders s + 1\<rparr>)"
  by (simp add: url2md_def upt_rec [of 0 30])

lemma generate_first_ok:
  assumes "completion w (completions s) = Inr answer"
    and "ai_provider cfg \<noteq> Gemini"
    and "parse_result answer = Inr r"
    and "0 < ai_max_retries cfg"
  shows "generate_summary_tags cfg w (PyStr content) s
           = (Inr (Some r), s\<lparr>completions := completions s + 1\<rparr>)"
proof -
  have "ai_try cfg w s = (Inr r, s\<lparr>completions := completions s + 1\<rparr>)"
    using assms(1-3) by (simp add: ai_try_def)
  then show ?thesis
    using assms(4) by (simp add: generate_summary_tags_def upt_conv_Cons)
qed

lemma save_first_ok:
  "iso8601 w (created_at d) = Inr current_time \<Longrightarrow>
   pages_create w (length (pages s)) = Inr url \<Longrightarrow>
   save_to_notion cfg w d s
     = (Inr (Some url), s\<lparr>pages := pages s @ [notion_properties current_time d]\<rparr>)"
  by (simp add: save_to_notion_def save_try_def upt_rec [of 0 3])

text \<open>When every step before the final notification succeeds, the outcome of
  \<open>process_file\<close> is decided by Telegram alone: the success result when the message is
  delivered; otherwise the handler runs, sends the failure message, and an exception
  reaches the caller whether or not that second message is delivered.\<close>

lemma process_file_after_steps:
  assumes "upload_to_github cfg w file_path s = (Inr (Some (filename, snapshot)), s1)"
    and "url2md w snapshot 30 s1 = (PyStr md, s2)"
    and "(if declared_url = [] then parse_filename filename ''original_url''
          else Some declared_url) = Some orig"
    and "generate_summary_tags cfg w (PyStr md) s2 = (Inr (Some (smry, tgs)), s3)"
    and "save_to_notion cfg w
           \<lparr>title = find_title (splitlines md), original_url = Some orig, snapshot_url = snapshot,
            summary = smry, tags = tgs, created_at = time_now w\<rparr> s3 = (Inr note, s4)"
  shows "process_file cfg w file_path declared_url s
           = (let msg = notification (find_title (splitlines md)) smry orig snapshot note
              in case send_message w (length (sent s4)) of
                   None \<Rightarrow>
                     (Inr \<lparr>status = str ''success'', github_url = snapshot, notion_url = note\<rparr>,
                      s4\<lparr>sent := sent s4 @ [msg]\<rparr>)
                 | Some e \<Rightarrow>
                     (case send_message w (Suc (length (sent s4))) of
                        None \<Rightarrow> (Inl e, s4\<lparr>sent := sent s4 @ [msg, processing_failed @ message e]\<rparr>)
                      | Some e' \<Rightarrow>
                          (Inl e', s4\<lparr>sent := sent s4 @ [msg, processing_failed @ message e]\<rparr>)))"
proof -
  have inner: "process_try cfg w file_path declared_url s
     = (case send_telegram_notification w
               (notification (find_title (splitlines md)) smry orig snapshot note) s4 of
          (Inl e, s5) \<Rightarrow> (Inl e, s5)
        | (Inr u, s5) \<Rightarrow>
            (Inr \<lparr>status = str ''success'', github_url = snapshot, notion_url = note\<rparr>, s5))"
    using assms by (simp add: process_try_def split: if_splits)
  show ?thesis
    unfolding process_file_def inner
    by (simp add: send_telegram_notification_def Let_def split: option.splits)
qed

lemma title_sample: "find_title (splitlines sample_markdown) = str ''Example''"
  by (simp add: sample_markdown_def splitlines_def str_def startswith_def strip_def is_space_def is_linebreak_def)

lemma parse_sample: "parse_result sample_answer = Inr (str ''short'', [str ''a'', str ''b''])"
  by (simp add: sample_answer_def parse_result_def summary_label_def tags_label_def wide_comma_def str_def startswith_def strip_def is_space_def)

lemma parse_blank_tags: "parse_result blank_tags_answer = Inr (str ''short'', [[]])"
  by (simp add: blank_tags_answer_def parse_result_def summary_label_def tags_label_def wide_comma_def str_def startswith_def strip_def is_space_def)

lemma parse_filename_sample:
  "parse_filename sample_name ''original_url'' = Some (str ''https://example.com/page'')"
  unfolding sample_name_def by code_simp

text \<open>The run of \<open>process_file\<close> in the sample world, for any answer of the AI that
  parses and any behaviour of Telegram.\<close>

lemma calm_run:
  assumes "parse_result answer = Inr (smry, tgs)"
  shows "process_file sample_config
           (calm\<lparr>completion := (\<lambda>k. Inr answer), send_message := script\<rparr>) sample_path [] start
         = (let w = calm\<lparr>completion := (\<lambda>k. Inr answer), send_message := script\<rparr>;
                note = Some (str ''https://www.notion.so/page'');
                msg = notification (str ''Example'') smry (str ''https://example.com/page'')
                        sample_url note;
                s4 = start\<lparr>uploads := 1, polls := 1, renders := 1, completions := 1,
                           pages := [notion_properties sample_time (sample_clip smry tgs)]\<rparr>
            in case script 0 of
                 None \<Rightarrow>
                   (Inr \<lparr>status = str ''success'', github_url = sample_url, notion_url = note\<rparr>,
                    s4\<lparr>sent := [msg]\<rparr>)
               | Some e \<Rightarrow>
                   (case script 1 of
                      None \<Rightarrow> (Inl e, s4\<lparr>sent := [msg, processing_failed @ message e]\<rparr>)
                    | Some e' \<Rightarrow> (Inl e', s4\<lparr>sent := [msg, processing_failed @ message e]\<rparr>)))"
proof -
  let ?w = "calm\<lparr>completion := (\<lambda>k. Inr answer), send_message := script\<rparr>"
  let ?s1 = "start\<lparr>uploads := uploads start + 1, polls := polls start + 1\<rparr>"
  let ?s2 = "?s1\<lparr>renders := renders ?s1 + 1\<rparr>"
  let ?s3 = "?s2\<lparr>completions := completions ?s2 + 1\<rparr>"
  let ?md = "sample_markdown"
  let ?d = "\<lparr>title = find_title (splitlines ?md),
            original_url = Some (str ''https://example.com/page''), snapshot_url = sample_url,
            summary = smry, tags = tgs, created_at = time_now ?w\<rparr>"
  let ?s4 = "?s3\<lparr>pages := pages ?s3 @ [notion_properties sample_time ?d]\<rparr>"
  have up: "upload_to_github sample_config ?w sample_path start
              = (Inr (Some (sample_name, sample_url)), ?s1)"
    using upload_first_ok [of ?w sample_path "str ''<html></html>''" start sample_config sample_url "[]"]
    by (simp add: calm_def basename_sample_path github_url_of_sample max_deploy_retries_sample)
  have md: "url2md ?w sample_url 30 ?s1 = (PyStr ?md, ?s2)"
    by (rule url2md_first_ok) (simp add: calm_def)
  have orig: "(if ([]::pystr) = [] then parse_filename sample_name ''original_url'' else Some [])
                = Some (str ''https://example.com/page'')"
    by (simp add: parse_filename_sample)
  have ai: "generate_summary_tags sample_config ?w (PyStr ?md) ?s2 = (Inr (Some (smry, tgs)), ?s3)"
    by (rule generate_first_ok [where answer = answer])
       (simp_all add: assms sample_config_def ai_max_retries_def)
  have saved: "save_to_notion sample_config ?w ?d ?s3
                = (Inr (Some (str ''https://www.notion.so/page'')), ?s4)"
    by (rule save_first_ok) (simp_all add: calm_def)
  have d: "\<lparr>title = str ''Example'', original_url = Some (str ''https://example.com/page''),
             snapshot_url = sample_url, summary = smry, tags = tgs, created_at = time_now ?w\<rparr>
           = sample_clip smry tgs"
    by (simp add: sample_clip_def calm_def)
  show ?thesis
    unfolding process_file_after_steps [OF up md orig ai saved] title_sample d
    by (simp add: Let_def start_def split: option.splits)
qed

section \<open>Notification failures\<close>

text \<open>
  C2 at a failing input: in the sample world every step succeeds and \<open>process_file\<close>
  returns the success result. When only the delivery of the final notification raises,
  with everything else unchanged, \<open>process_file\<close> does not return that result: the
  exception of the delivery reaches the caller.
\<close>

theorem notification_failure_reaches_caller:
  "fst (process_file sample_config calm sample_path [] start)
     = Inr \<lparr>status = str ''success'', github_url = sample_url,
            notion_url = Some (str ''https://www.notion.so/page'')\<rparr>
   \<and> fst (process_file sample_config
            (calm\<lparr>send_message := (\<lambda>k. if k = 0 then Some (Exception (str ''telegram down''))
                                       else None)\<rparr>)
            sample_path [] start)
       = Inl (Exception (str ''telegram down''))"
proof -
  let ?answer = "sample_answer"
  let ?script = "\<lambda>k::nat. if k = 0 then Some (Exception (str ''telegram down'')) else None"
  have quiet: "calm\<lparr>completion := (\<lambda>k. Inr ?answer), send_message := (\<lambda>k. None)\<rparr> = calm"
    by (simp add: calm_def)
  have loud: "calm\<lparr>completion := (\<lambda>k. Inr ?answer), send_message := ?script\<rparr>
                = calm\<lparr>send_message := ?script\<rparr>"
    by (simp add: calm_def)
  show ?thesis
    using calm_run [OF parse_sample, of "\<lambda>k. None"] calm_run [OF parse_sample, of ?script]
    unfolding quiet loud by (simp add: Let_def)
qed

section \<open>The summarizer and the tags of the payload\<close>

text \<open>What the parse accepts has a summary that is not empty and a tag list that is not
  empty; anything else is the format failure that the retry loop catches.\<close>

lemma parse_result_nonempty:
  "parse_result answer = Inr (smry, tgs) \<Longrightarrow> smry \<noteq> [] \<and> tgs \<noteq> []"
  by (auto simp: parse_result_def split: prod.splits if_splits)

lemma parse_result_format_failure:
  "parse_lines (split 10 answer) [] [] = (smry, tgs) \<Longrightarrow> smry = [] \<or> tgs = [] \<Longrightarrow>
   parse_result answer = Inl (ValueError bad_format)"
  by (auto simp: parse_result_def)

text \<open>With degradation enabled, an exception of the attempts is answered with the
  configured defaults.\<close>

lemma generate_degrades:
  assumes "ai_outer_try cfg w content s = (Inl e, s')" and "flag (skip_ai_on_error cfg)"
  shows "fst (generate_summary_tags cfg w content s)
           = Inr (Some (case default_summary cfg of None \<Rightarrow> no_summary | Some d \<Rightarrow> d,
                        case default_tags cfg of None \<Rightarrow> [uncategorized] | Some d \<Rightarrow> d))"
  using assms by (simp add: generate_summary_tags_def Let_def)

text \<open>
  C5 at a failing input: the AI answers with a summary line and a tag line that has
  nothing after its label. The tag list parsed from it is the list of one empty string,
  which passes the check for a non-empty list, so \<open>generate_summary_tags\<close> returns it at
  the first attempt: a result without any non-blank tag. In \<open>save_to_notion\<close> the list is
  not empty, so the default tag is not used, and the filter on blank tags leaves nothing:
  the payload handed to Notion has an empty tag set.
\<close>

theorem blank_tags_reach_notion:
  "fst (generate_summary_tags sample_config
          (calm\<lparr>completion := (\<lambda>k. Inr blank_tags_answer)\<rparr>)
          (PyStr sample_markdown) start)
     = Inr (Some (str ''short'', [[]]))
   \<and> map Tags (pages (snd (process_file sample_config
          (calm\<lparr>completion := (\<lambda>k. Inr blank_tags_answer)\<rparr>)
          sample_path [] start)))
     = [[]]"
proof -
  let ?answer = "blank_tags_answer"
  let ?w = "calm\<lparr>completion := (\<lambda>k. Inr ?answer)\<rparr>"
  have w: "calm\<lparr>completion := (\<lambda>k. Inr ?answer), send_message := (\<lambda>k. None)\<rparr> = ?w"
    by (simp add: calm_def)
  have ai: "generate_summary_tags sample_config ?w (PyStr sample_markdown) start
              = (Inr (Some (str ''short'', [[]])), start\<lparr>completions := completions start + 1\<rparr>)"
    by (rule generate_first_ok [where answer = ?answer])
       (simp_all add: parse_blank_tags sample_config_def ai_max_retries_def)
  have tags: "Tags (notion_properties sample_time (sample_clip (str ''short'') [[]])) = []"
    by (simp add: notion_properties_def sample_clip_def strip_def)
  show ?thesis
    using calm_run [OF parse_blank_tags, of "\<lambda>k. None"] ai tags
    unfolding w by (simp add: Let_def)
qed

section \<open>The title of the fallback path\<close>

lemma bs_title_from_title:
  "title_string sp = Some (Some t) \<Longrightarrow> t \<noteq> [] \<Longrightarrow> bs_title sp = Some t"
  by (simp add: bs_title_def falsy_def)

lemma bs_title_from_h1:
  "title_string sp = None \<or> title_string sp = Some None \<or> title_string sp = Some (Some []) \<Longrightarrow>
   h1_text sp = Some h \<Longrightarrow> h \<noteq> [] \<Longrightarrow> bs_title sp = Some h"
  by (auto simp: bs_title_def falsy_def)

text \<open>
  C7 at the failing inputs: for a page with no \<open>title\<close> element, no \<open>h1\<close> and none of
  \<open>h2\<close> to \<open>h6\<close>, the title chosen by \<open>get_page_content_by_bs\<close> is \<open>None\<close>, which the
  f-string writes as the text \<open>None\<close>; the title that \<open>get_page_content_by_md\<close> reads from
  the returned string is \<open>None\<close>, not the sentinel \<open>unknown_title\<close>.
\<close>

theorem bs_title_without_heading:
  assumes "title_string sp = None" and "h1_text sp = None" and "\<forall>tag. find_text sp tag = None"
  shows "bs_title sp = None
         \<and> bs_page sp = str ''Title: None '' @ [10, 10, 32] @ markdown sp
         \<and> get_page_content_by_md (PyStr (bs_page sp)) = Inr (str ''None'')
         \<and> str ''None'' \<noteq> unknown_title"
proof -
  have t: "bs_title sp = None"
    using assms by (simp add: bs_title_def falsy_def)
  have p: "bs_page sp = str ''Title: None '' @ [10, 10, 32] @ markdown sp"
    by (simp add: bs_page_def t format_opt_def str_def)
  have m: "get_page_content_by_md (PyStr (str ''Title: None '' @ [10, 10, 32] @ markdown sp))
             = Inr (str ''None'')"
    by (simp add: splitlines_def str_def startswith_def strip_def is_space_def is_linebreak_def)
  have u: "str ''None'' \<noteq> unknown_title"
    by (simp add: str_def unknown_title_def)
  show ?thesis
    using t p m u by simp
qed

theorem bs_title_without_heading_witness:
  "title_string empty_page = None \<and> h1_text empty_page = None
   \<and> (\<forall>tag. find_text empty_page tag = None)
   \<and> fst (get_page_content_by_bs calm sample_url 60 start) = PyStr (bs_page empty_page)
   \<and> get_page_content_by_md (PyStr (bs_page empty_page)) = Inr (str ''None'')"
proof -
  have a: "title_string empty_page = None" and b: "h1_text empty_page = None"
    and c: "\<forall>tag. find_text empty_page tag = None"
    by (simp_all add: empty_page_def)
  have ok: "fst (get_page_content_by_bs calm sample_url 60 start) = PyStr (bs_page empty_page)"
    by (simp add: bs_first_ok [where body = "[]" and sp = empty_page] calm_def)
  show ?thesis
    using a b c ok bs_title_without_heading [OF a b c] by blast
qed

section \<open>The original URL of the payload\<close>

text \<open>When the text of the time is obtained, every attempt of \<open>save_to_notion\<close> hands
  the same payload to Notion, and the first attempt hands one over. When it is not, no
  payload is built and none is handed over.\<close>

lemma save_loop_hands_over:
  assumes "iso8601 w (created_at d) = Inr current_time"
  shows "\<exists>n. (as \<noteq> [] \<longrightarrow> 0 < n)
           \<and> pages (snd (save_loop cfg w d max_retries retry_delay as s))
               = pages s @ replicate n (notion_properties current_time d)"
proof (induction as arbitrary: s)
  case Nil
  show ?case by simp
next
  case (Cons a as)
  let ?p = "notion_properties current_time d"
  let ?s1 = "s\<lparr>pages := pages s @ [?p]\<rparr>"
  have attempt: "save_try w d s = (pages_create w (length (pages s)), ?s1)"
    using assms by (simp add: save_try_def)
  obtain n where later:
    "pages (snd (save_loop cfg w d max_retries retry_delay as (sleep (retry_delay * 2 ^ a) ?s1)))
       = pages (sleep (retry_delay * 2 ^ a) ?s1) @ replicate n ?p"
    using Cons.IH by blast
  have again: "pages (snd (save_loop cfg w d max_retries retry_delay as (sleep (retry_delay * 2 ^ a) ?s1)))
       = pages s @ replicate (Suc n) ?p"
    unfolding later by (simp add: sleep_def replicate_append_same)
  have once: "pages ?s1 = pages s @ replicate (Suc 0) ?p"
    by simp
  have "pages (snd (save_loop cfg w d max_retries retry_delay (a # as) s))
          = pages s @ replicate (Suc 0) ?p
        \<or> pages (snd (save_loop cfg w d max_retries retry_delay (a # as) s))
          = pages s @ replicate (Suc n) ?p"
    using again
    by (auto simp: attempt create_task_def Let_def split: sum.splits option.splits)
  then show ?case
    by (metis list.distinct(1) zero_less_Suc)
qed

lemma save_loop_no_payload:
  assumes "iso8601 w (created_at d) = Inl e"
  shows "pages (snd (save_loop cfg w d max_retries retry_delay as s)) = pages s"
proof (induction as arbitrary: s)
  case Nil
  show ?case by simp
next
  case (Cons a as)
  have attempt: "save_try w d s = (Inl e, s)"
    using assms by (simp add: save_try_def)
  show ?case
    using Cons.IH [of "sleep (retry_delay * 2 ^ a) s"]
    by (auto simp: attempt create_task_def sleep_def Let_def split: option.splits)
qed

text \<open>
  C8: \<open>save_to_notion\<close> hands at least one payload to Notion, and every payload it hands
  over never stores the empty string as original URL: when the original URL of the record
  is \<open>None\<close> or the empty string the payload stores \<open>None\<close>, and a non-empty original URL
  is stored unchanged. (The time of the record must be one that \<open>time.gmtime\<close> accepts;
  otherwise the function builds no payload at all.)
\<close>

theorem original_url_null_when_absent:
  assumes "iso8601 w (created_at d) = Inr current_time"
  shows "\<exists>n p. 0 < n
           \<and> pages (snd (save_to_notion cfg w d s)) = pages s @ replicate n p
           \<and> OriginalURL p \<noteq> Some []
           \<and> (original_url d = None \<or> original_url d = Some [] \<longrightarrow> OriginalURL p = None)
           \<and> (\<forall>u. original_url d = Some u \<and> u \<noteq> [] \<longrightarrow> OriginalURL p = Some u)"
proof -
  let ?p = "notion_properties current_time d"
  obtain n where n: "0 < n"
      and handed: "pages (snd (save_to_notion cfg w d s)) = pages s @ replicate n ?p"
    using save_loop_hands_over [OF assms, of "[0..<3]" cfg 3 2 s]
    by (auto simp: save_to_notion_def)
  have stored: "OriginalURL ?p \<noteq> Some []
      \<and> (original_url d = None \<or> original_url d = Some [] \<longrightarrow> OriginalURL ?p = None)
      \<and> (\<forall>u. original_url d = Some u \<and> u \<noteq> [] \<longrightarrow> OriginalURL ?p = Some u)"
    by (auto simp: notion_properties_def Let_def split: option.splits)
  show ?thesis
    using n handed stored by blast
qed

theorem original_url_null_when_absent_witness:
  "(\<exists>n p. 0 < n
      \<and> pages (snd (save_to_notion sample_config calm
                      (sample_clip (str ''short'') [str ''a'']\<lparr>original_url := None\<rparr>) start))
          = replicate n p
      \<and> OriginalURL p = None)
   \<and> (\<exists>n p. 0 < n
      \<and> pages (snd (save_to_notion sample_config calm
                      (sample_clip (str ''short'') [str ''a'']\<lparr>original_url := Some []\<rparr>) start))
          = replicate n p
      \<and> OriginalURL p = None)
   \<and> (\<exists>n p. 0 < n
      \<and> pages (snd (save_to_notion sample_config calm
                      (sample_clip (str ''short'') [str ''a'']) start))
          = replicate n p
      \<and> OriginalURL p = Some (str ''https://example.com/page''))"
proof -
  let ?d = "sample_clip (str ''short'') [str ''a'']"
  have t: "iso8601 calm (created_at d) = Inr sample_time" for d
    by (simp add: calm_def)
  have e: "pages start = []"
    by (simp add: start_def)
  have n: "original_url (?d\<lparr>original_url := None\<rparr>) = None"
    by simp
  have b: "original_url (?d\<lparr>original_url := Some []\<rparr>) = Some []"
    by simp
  have p: "original_url ?d = Some (str ''https://example.com/page'')
           \<and> str ''https://example.com/page'' \<noteq> []"
    by (simp add: sample_clip_def str_def)
  have first: "\<exists>n p. 0 < n
      \<and> pages (snd (save_to_notion sample_config calm (?d\<lparr>original_url := None\<rparr>) start))
          = replicate n p \<and> OriginalURL p = None"
    using original_url_null_when_absent [OF t, where d = "?d\<lparr>original_url := None\<rparr>" and cfg = sample_config and s = start]
    unfolding e n by auto
  have second: "\<exists>n p. 0 < n
      \<and> pages (snd (save_to_notion sample_config calm (?d\<lparr>original_url := Some []\<rparr>) start))
          = replicate n p \<and> OriginalURL p = None"
    using original_url_null_when_absent [OF t, where d = "?d\<lparr>original_url := Some []\<rparr>" and cfg = sample_config and s = start]
    unfolding e b by auto
  have third: "\<exists>n p. 0 < n
      \<and> pages (snd (save_to_notion sample_config calm ?d start)) = replicate n p
      \<and> OriginalURL p = Some (str ''https://example.com/page'')"
    using p original_url_null_when_absent [OF t, where d = ?d and cfg = sample_config and s = start]
    unfolding e by auto
  show ?thesis
    using first second third by blast
qed

end
